theory Spec2Isabelle
  imports Main "HOL-Library.AList" "HOL-Library.Code_Target_Numeral"
begin

section \<open>Timestamps and their ISO text form\<close>

text \<open>
  \<^verbatim>\<open>server.py\<close> stores every \<^verbatim>\<open>datetime\<close> as the text that
  \<^verbatim>\<open>datetime.isoformat()\<close> returns and reads it back with
  \<^verbatim>\<open>datetime.fromisoformat()\<close>. Both belong to the Python standard library; they
  are written out here after \<^verbatim>\<open>Lib/datetime.py\<close> so that the serialization
  helpers of the server can be run on concrete values.

  A \<^verbatim>\<open>datetime\<close> is its calendar fields and the offset of its \<^verbatim>\<open>tzinfo\<close>
  from UTC in microseconds (\<open>None\<close> for a naive value).
\<close>

record datetime =
  year :: nat
  month :: nat
  day :: nat
  hour :: nat
  minute :: nat
  second :: nat
  microsecond :: nat
  utcoffset :: "int option"

definition is_leap :: "nat \<Rightarrow> bool" where
  "is_leap y = (y mod 4 = 0 \<and> (y mod 100 \<noteq> 0 \<or> y mod 400 = 0))"

definition days_in_month :: "nat \<Rightarrow> nat \<Rightarrow> nat" where
  "days_in_month y m =
     (if m = 2 \<and> is_leap y then 29
      else [0, 31, 28, 31, 30, 31, 30, 31, 31, 30, 31, 30, 31] ! m)"

text \<open>The range checks of the \<^verbatim>\<open>datetime\<close> and \<^verbatim>\<open>timezone\<close> constructors.\<close>

definition valid_datetime :: "datetime \<Rightarrow> bool" where
  "valid_datetime d =
     (1 \<le> year d \<and> year d \<le> 9999 \<and> 1 \<le> month d \<and> month d \<le> 12 \<and>
      1 \<le> day d \<and> day d \<le> days_in_month (year d) (month d) \<and>
      hour d \<le> 23 \<and> minute d \<le> 59 \<and> second d \<le> 59 \<and> microsecond d \<le> 999999 \<and>
      (case utcoffset d of None \<Rightarrow> True | Some off \<Rightarrow> \<bar>off\<bar> < 86400000000))"

definition mk_datetime ::
  "nat \<Rightarrow> nat \<Rightarrow> nat \<Rightarrow> nat \<Rightarrow> nat \<Rightarrow> nat \<Rightarrow> nat \<Rightarrow> int option \<Rightarrow> datetime option" where
  "mk_datetime y mo dd h mi s us tz =
     (let d = \<lparr>year = y, month = mo, day = dd, hour = h, minute = mi, second = s,
                microsecond = us, utcoffset = tz\<rparr>
      in if valid_datetime d then Some d else None)"

text \<open>
  Aware datetimes are compared by the instant they denote: the proleptic Gregorian ordinal
  of the date (\<^verbatim>\<open>_ymd2ord\<close>), the time of day, minus the offset.
\<close>

definition days_before_year :: "nat \<Rightarrow> nat" where
  "days_before_year y = (y - 1) * 365 + (y - 1) div 4 - (y - 1) div 100 + (y - 1) div 400"

definition days_before_month :: "nat \<Rightarrow> nat \<Rightarrow> nat" where
  "days_before_month y m = sum_list (map (days_in_month y) [1..<m])"

definition instant :: "datetime \<Rightarrow> int" where
  "instant d =
     (((int (days_before_year (year d) + days_before_month (year d) (month d) + day d) * 24
        + int (hour d)) * 60 + int (minute d)) * 60 + int (second d)) * 1000000
     + int (microsecond d)
     - (case utcoffset d of None \<Rightarrow> 0 | Some off \<Rightarrow> off)"

definition datetime_le :: "datetime \<Rightarrow> datetime \<Rightarrow> bool" where
  "datetime_le a b = (instant a \<le> instant b)"

subsection \<open>Printing: \<^verbatim>\<open>isoformat\<close>\<close>

definition digit_char :: "nat \<Rightarrow> char" where
  "digit_char d = ''0123456789'' ! d"

definition digit_val :: "char \<Rightarrow> nat option" where
  "digit_val c = map_of (zip ''0123456789'' [0, 1, 2, 3, 4, 5, 6, 7, 8, 9]) c"

text \<open>\<^verbatim>\<open>"%d" % n\<close>, and \<^verbatim>\<open>"%0wd" % n\<close>: padded with zeros to at least \<open>w\<close> characters.\<close>

fun dec :: "nat \<Rightarrow> string" where
  "dec n = (if n < 10 then [digit_char n] else dec (n div 10) @ [digit_char (n mod 10)])"

declare dec.simps [simp del]

definition zpad :: "nat \<Rightarrow> nat \<Rightarrow> string" where
  "zpad w n = replicate (w - length (dec n)) (CHR ''0'') @ dec n"

definition format_time :: "nat \<Rightarrow> nat \<Rightarrow> nat \<Rightarrow> nat \<Rightarrow> string" where
  "format_time hh mm ss us =
     zpad 2 hh @ '':'' @ zpad 2 mm @ '':'' @ zpad 2 ss @
     (if us \<noteq> 0 then ''.'' @ zpad 6 us else [])"

definition format_offset :: "int option \<Rightarrow> string" where
  "format_offset off =
     (case off of
        None \<Rightarrow> []
      | Some d \<Rightarrow>
          (let sign = (if d < 0 then ''-'' else ''+'');
               a = nat \<bar>d\<bar>;
               hh = a div 3600000000;
               r = a mod 3600000000;
               mm = r div 60000000;
               ss = r mod 60000000
           in sign @ zpad 2 hh @ '':'' @ zpad 2 mm @
              (if ss \<noteq> 0
               then '':'' @ zpad 2 (ss div 1000000) @
                    (if ss mod 1000000 \<noteq> 0 then ''.'' @ zpad 6 (ss mod 1000000) else [])
               else [])))"

definition isoformat :: "datetime \<Rightarrow> string" where
  "isoformat d =
     zpad 4 (year d) @ ''-'' @ zpad 2 (month d) @ ''-'' @ zpad 2 (day d) @ ''T'' @
     format_time (hour d) (minute d) (second d) (microsecond d) @
     format_offset (utcoffset d)"

subsection \<open>Parsing: \<^verbatim>\<open>fromisoformat\<close>\<close>

text \<open>
  \<open>None\<close> stands for the \<^verbatim>\<open>ValueError\<close> that \<^verbatim>\<open>fromisoformat\<close> raises.
  The accepted language is the one of Python 3.7 to 3.10,
  \<^verbatim>\<open>YYYY-MM-DD[*HH[:MM[:SS[.fff[fff]]]][+HH:MM[:SS[.ffffff]]]]\<close>; later versions accept
  more, and agree on every string that \<^verbatim>\<open>isoformat\<close> prints.
\<close>

fun parse_digits :: "string \<Rightarrow> nat \<Rightarrow> nat option" where
  "parse_digits [] acc = Some acc"
| "parse_digits (c # cs) acc =
     (case digit_val c of None \<Rightarrow> None | Some d \<Rightarrow> parse_digits cs (10 * acc + d))"

definition py_int :: "string \<Rightarrow> nat option" where
  "py_int s = (if s = [] then None else parse_digits s 0)"

definition slice :: "string \<Rightarrow> nat \<Rightarrow> nat \<Rightarrow> string" where
  "slice s i j = take (j - i) (drop i s)"

definition parse_isoformat_date :: "string \<Rightarrow> (nat \<times> nat \<times> nat) option" where
  "parse_isoformat_date dtstr =
     (case py_int (slice dtstr 0 4) of
        None \<Rightarrow> None
      | Some y \<Rightarrow>
          if slice dtstr 4 5 \<noteq> ''-'' then None
          else (case py_int (slice dtstr 5 7) of
                  None \<Rightarrow> None
                | Some m \<Rightarrow>
                    if slice dtstr 7 8 \<noteq> ''-'' then None
                    else (case py_int (slice dtstr 8 10) of
                            None \<Rightarrow> None
                          | Some dd \<Rightarrow> Some (y, m, dd))))"

text \<open>
  The loop of \<^verbatim>\<open>_parse_hh_mm_ss_ff\<close> over the (at most three) two-digit components:
  the first argument counts the components still allowed, the result is the components read
  and the text left after them.
\<close>

fun parse_hh_mm_ss :: "nat \<Rightarrow> string \<Rightarrow> (nat list \<times> string) option" where
  "parse_hh_mm_ss 0 s = Some ([], s)"
| "parse_hh_mm_ss (Suc n) s =
     (if length s < 2 then None
      else (case py_int (take 2 s) of
              None \<Rightarrow> None
            | Some v \<Rightarrow>
                (let rest = drop 2 s in
                 if rest = [] \<or> n = 0 then Some ([v], rest)
                 else if hd rest \<noteq> CHR '':'' then None
                 else (case parse_hh_mm_ss n (tl rest) of
                         None \<Rightarrow> None
                       | Some (vs, r) \<Rightarrow> Some (v # vs, r)))))"

definition comp_at :: "nat list \<Rightarrow> nat \<Rightarrow> nat" where
  "comp_at vs i = (if i < length vs then vs ! i else 0)"

definition parse_hh_mm_ss_ff :: "string \<Rightarrow> (nat \<times> nat \<times> nat \<times> nat) option" where
  "parse_hh_mm_ss_ff tstr =
     (case parse_hh_mm_ss 3 tstr of
        None \<Rightarrow> None
      | Some (vs, rest) \<Rightarrow>
          if rest = [] then Some (comp_at vs 0, comp_at vs 1, comp_at vs 2, 0)
          else if hd rest \<noteq> CHR ''.'' then None
          else (let frac = tl rest in
                if length frac \<noteq> 3 \<and> length frac \<noteq> 6 then None
                else (case py_int frac of
                        None \<Rightarrow> None
                      | Some us \<Rightarrow>
                          Some (comp_at vs 0, comp_at vs 1, comp_at vs 2,
                                if length frac = 3 then us * 1000 else us))))"

text \<open>\<^verbatim>\<open>str.find\<close>: the index of the first occurrence, or \<open>-1\<close>.\<close>

definition py_find :: "string \<Rightarrow> char \<Rightarrow> int" where
  "py_find s c = (if c \<in> set s then int (length (takeWhile (\<lambda>x. x \<noteq> c) s)) else - 1)"

definition parse_isoformat_time ::
  "string \<Rightarrow> ((nat \<times> nat \<times> nat \<times> nat) \<times> int option) option" where
  "parse_isoformat_time tstr =
     (if length tstr < 2 then None
      else
        (let tz_pos = (if py_find tstr (CHR ''-'') + 1 \<noteq> 0 then py_find tstr (CHR ''-'') + 1
                       else py_find tstr (CHR ''+'') + 1);
             timestr = (if tz_pos > 0 then take (nat (tz_pos - 1)) tstr else tstr)
         in case parse_hh_mm_ss_ff timestr of
              None \<Rightarrow> None
            | Some time_comps \<Rightarrow>
                if tz_pos > 0 then
                  (let tzstr = drop (nat tz_pos) tstr in
                   if length tzstr \<notin> {5, 8, 15} then None
                   else (case parse_hh_mm_ss_ff tzstr of
                           None \<Rightarrow> None
                         | Some (h, m, s, us) \<Rightarrow>
                             if h = 0 \<and> m = 0 \<and> s = 0 \<and> us = 0
                             then Some (time_comps, Some 0)
                             else
                               (let tzsign = (if tstr ! nat (tz_pos - 1) = CHR ''-''
                                              then - 1 else 1);
                                    td = tzsign * (int h * 3600000000 + int m * 60000000
                                                   + int s * 1000000 + int us)
                                in if \<bar>td\<bar> < 86400000000 then Some (time_comps, Some td)
                                   else None)))
                else Some (time_comps, None)))"

definition fromisoformat :: "string \<Rightarrow> datetime option" where
  "fromisoformat date_string =
     (if length date_string < 10 then None
      else
        (let dstr = slice date_string 0 10; tstr = drop 11 date_string in
         case parse_isoformat_date dstr of
           None \<Rightarrow> None
         | Some (y, mo, dd) \<Rightarrow>
             if tstr \<noteq> [] then
               (case parse_isoformat_time tstr of
                  None \<Rightarrow> None
                | Some ((h, mi, s, us), tz) \<Rightarrow> mk_datetime y mo dd h mi s us tz)
             else mk_datetime y mo dd 0 0 0 0 None))"

section \<open>Documents and collections\<close>

text \<open>
  A document is a Python \<^verbatim>\<open>dict\<close> from field names to values, kept as an association
  list with distinct keys. The values that occur are strings, \<^verbatim>\<open>None\<close> and
  \<^verbatim>\<open>datetime\<close>s; a member of one of the two \<^verbatim>\<open>str\<close>-based enumerations is
  the string it equals.
\<close>

datatype val = VNone | VStr string | VDatetime datetime

type_synonym doc = "(string \<times> val) list"

datatype error = NotFound | ValidationError | TypeError

datatype TaskPriority = low | medium | high

datatype TaskColumn = todo | in_progress | done_col

fun TaskPriority_value :: "TaskPriority \<Rightarrow> string" where
  "TaskPriority_value low = ''low''"
| "TaskPriority_value medium = ''medium''"
| "TaskPriority_value high = ''high''"

fun TaskColumn_value :: "TaskColumn \<Rightarrow> string" where
  "TaskColumn_value todo = ''todo''"
| "TaskColumn_value in_progress = ''in_progress''"
| "TaskColumn_value done_col = ''done''"

definition TaskPriority_of :: "string \<Rightarrow> TaskPriority option" where
  "TaskPriority_of s =
     (if s = ''low'' then Some low else if s = ''medium'' then Some medium
      else if s = ''high'' then Some high else None)"

definition TaskColumn_of :: "string \<Rightarrow> TaskColumn option" where
  "TaskColumn_of s =
     (if s = ''todo'' then Some todo else if s = ''in_progress'' then Some in_progress
      else if s = ''done'' then Some done_col else None)"

subsection \<open>Serialization helpers\<close>

definition prepare_for_mongo :: "doc \<Rightarrow> doc" where
  "prepare_for_mongo data =
     map (\<lambda>(key, value).
            case value of VDatetime t \<Rightarrow> (key, VStr (isoformat t)) | _ \<Rightarrow> (key, value))
         data"

definition parse_from_mongo :: "doc \<Rightarrow> doc" where
  "parse_from_mongo item =
     map (\<lambda>(key, value).
            if key \<in> set [''created_at'', ''updated_at'', ''due_date'']
            then (case value of
                    VStr s \<Rightarrow> (case fromisoformat s of
                                 Some t \<Rightarrow> (key, VDatetime t)
                               | None \<Rightarrow> (key, value))
                  | _ \<Rightarrow> (key, value))
            else (key, value))
         item"

subsection \<open>The collections of the database\<close>

text \<open>
  A collection is the list of its documents in insertion order. A query is a document of
  required field values; the handlers only ever query for strings. The \<^verbatim>\<open>_id\<close> field
  that the database adds to each document is left out: no query names it and the models
  ignore it.
\<close>

definition matches :: "doc \<Rightarrow> doc \<Rightarrow> bool" where
  "matches query d = list_all (\<lambda>(k, v). map_of d k = Some v) query"

definition find_one :: "doc \<Rightarrow> doc list \<Rightarrow> doc option" where
  "find_one query coll = List.find (matches query) coll"

definition find_all :: "doc \<Rightarrow> doc list \<Rightarrow> doc list" where
  "find_all query coll = filter (matches query) coll"

definition insert_one :: "doc \<Rightarrow> doc list \<Rightarrow> doc list" where
  "insert_one d coll = coll @ [d]"

definition set_fields :: "doc \<Rightarrow> doc \<Rightarrow> doc" where
  "set_fields upd d = fold (\<lambda>(k, v). AList.update k v) upd d"

fun update_one :: "doc \<Rightarrow> doc \<Rightarrow> doc list \<Rightarrow> doc list" where
  "update_one query upd [] = []"
| "update_one query upd (d # ds) =
     (if matches query d then set_fields upd d # ds else d # update_one query upd ds)"

fun delete_one :: "doc \<Rightarrow> doc list \<Rightarrow> doc list" where
  "delete_one query [] = []"
| "delete_one query (d # ds) = (if matches query d then ds else d # delete_one query ds)"

definition delete_many :: "doc \<Rightarrow> doc list \<Rightarrow> doc list" where
  "delete_many query coll = filter (\<lambda>d. \<not> matches query d) coll"

record store =
  boards :: "doc list"
  tasks :: "doc list"

section \<open>Models\<close>

record Board =
  b_id :: string
  b_name :: string
  b_description :: "string option"
  b_created_at :: datetime
  b_updated_at :: datetime

record BoardCreate =
  bc_name :: string
  bc_description :: "string option"

record BoardUpdate =
  bu_name :: "string option"
  bu_description :: "string option"

record Task =
  t_id :: string
  t_board_id :: string
  t_title :: string
  t_description :: "string option"
  t_priority :: TaskPriority
  t_column :: TaskColumn
  t_due_date :: "datetime option"
  t_created_at :: datetime
  t_updated_at :: datetime

record TaskCreate =
  tc_title :: string
  tc_description :: "string option"
  tc_priority :: TaskPriority
  tc_due_date :: "datetime option"

record TaskUpdate =
  tu_title :: "string option"
  tu_description :: "string option"
  tu_priority :: "TaskPriority option"
  tu_column :: "TaskColumn option"
  tu_due_date :: "datetime option"

text \<open>
  What the default factories return when a model is built: one \<^verbatim>\<open>uuid.uuid4()\<close> and
  one \<^verbatim>\<open>datetime.now(timezone.utc)\<close> for each of the two timestamps. The last field is
  the parser that the validation library applies to a string given for a
  \<^verbatim>\<open>datetime\<close> field; it is not part of this repository and stays a parameter.
\<close>

record env =
  uuid4 :: string
  now_created :: datetime
  now_updated :: datetime
  parse_datetime :: "string \<Rightarrow> datetime option"

subsection \<open>Field validation\<close>

text \<open>
  Each validator takes the value passed for the field (\<open>None\<close> when the key is missing)
  and returns the validated value, or \<open>None\<close> when validation fails.
\<close>

definition field_str :: "string option \<Rightarrow> val option \<Rightarrow> string option" where
  "field_str dflt v =
     (case v of None \<Rightarrow> dflt | Some (VStr s) \<Rightarrow> Some s | Some _ \<Rightarrow> None)"

definition field_opt_str :: "string option \<Rightarrow> val option \<Rightarrow> string option option" where
  "field_opt_str dflt v =
     (case v of
        None \<Rightarrow> Some dflt
      | Some VNone \<Rightarrow> Some None
      | Some (VStr s) \<Rightarrow> Some (Some s)
      | Some (VDatetime t) \<Rightarrow> None)"

definition field_datetime ::
  "(string \<Rightarrow> datetime option) \<Rightarrow> datetime \<Rightarrow> val option \<Rightarrow> datetime option" where
  "field_datetime parse dflt v =
     (case v of
        None \<Rightarrow> Some dflt
      | Some VNone \<Rightarrow> None
      | Some (VStr s) \<Rightarrow> parse s
      | Some (VDatetime t) \<Rightarrow> Some t)"

definition field_opt_datetime ::
  "(string \<Rightarrow> datetime option) \<Rightarrow> val option \<Rightarrow> datetime option option" where
  "field_opt_datetime parse v =
     (case v of
        None \<Rightarrow> Some None
      | Some VNone \<Rightarrow> Some None
      | Some (VStr s) \<Rightarrow> map_option Some (parse s)
      | Some (VDatetime t) \<Rightarrow> Some (Some t))"

definition field_priority :: "val option \<Rightarrow> TaskPriority option" where
  "field_priority v =
     (case v of None \<Rightarrow> Some medium | Some (VStr s) \<Rightarrow> TaskPriority_of s | Some _ \<Rightarrow> None)"

definition field_column :: "val option \<Rightarrow> TaskColumn option" where
  "field_column v =
     (case v of None \<Rightarrow> Some todo | Some (VStr s) \<Rightarrow> TaskColumn_of s | Some _ \<Rightarrow> None)"

definition opt_str :: "string option \<Rightarrow> val" where
  "opt_str x = (case x of None \<Rightarrow> VNone | Some s \<Rightarrow> VStr s)"

definition opt_datetime :: "datetime option \<Rightarrow> val" where
  "opt_datetime x = (case x of None \<Rightarrow> VNone | Some t \<Rightarrow> VDatetime t)"

subsection \<open>Construction (\<^verbatim>\<open>Model(**kwargs)\<close>) and \<^verbatim>\<open>.dict()\<close>\<close>

definition Board_init :: "env \<Rightarrow> doc \<Rightarrow> error + Board" where
  "Board_init e kw =
     (let i = field_str (Some (uuid4 e)) (map_of kw ''id'');
          n = field_str None (map_of kw ''name'');
          ds = field_opt_str (Some '''') (map_of kw ''description'');
          c = field_datetime (parse_datetime e) (now_created e) (map_of kw ''created_at'');
          u = field_datetime (parse_datetime e) (now_updated e) (map_of kw ''updated_at'')
      in if i = None \<or> n = None \<or> ds = None \<or> c = None \<or> u = None
         then Inl ValidationError
         else Inr \<lparr>b_id = the i, b_name = the n, b_description = the ds,
                    b_created_at = the c, b_updated_at = the u\<rparr>)"

definition Board_dict :: "Board \<Rightarrow> doc" where
  "Board_dict b =
     [(''id'', VStr (b_id b)), (''name'', VStr (b_name b)),
      (''description'', opt_str (b_description b)),
      (''created_at'', VDatetime (b_created_at b)),
      (''updated_at'', VDatetime (b_updated_at b))]"

definition BoardCreate_dict :: "BoardCreate \<Rightarrow> doc" where
  "BoardCreate_dict x =
     [(''name'', VStr (bc_name x)), (''description'', opt_str (bc_description x))]"

definition BoardUpdate_dict :: "BoardUpdate \<Rightarrow> doc" where
  "BoardUpdate_dict x =
     [(''name'', opt_str (bu_name x)), (''description'', opt_str (bu_description x))]"

definition Task_init :: "env \<Rightarrow> doc \<Rightarrow> error + Task" where
  "Task_init e kw =
     (let i = field_str (Some (uuid4 e)) (map_of kw ''id'');
          b = field_str None (map_of kw ''board_id'');
          ti = field_str None (map_of kw ''title'');
          ds = field_opt_str (Some '''') (map_of kw ''description'');
          p = field_priority (map_of kw ''priority'');
          cl = field_column (map_of kw ''column'');
          dd = field_opt_datetime (parse_datetime e) (map_of kw ''due_date'');
          c = field_datetime (parse_datetime e) (now_created e) (map_of kw ''created_at'');
          u = field_datetime (parse_datetime e) (now_updated e) (map_of kw ''updated_at'')
      in if i = None \<or> b = None \<or> ti = None \<or> ds = None \<or> p = None \<or> cl = None
            \<or> dd = None \<or> c = None \<or> u = None
         then Inl ValidationError
         else Inr \<lparr>t_id = the i, t_board_id = the b, t_title = the ti, t_description = the ds,
                    t_priority = the p, t_column = the cl, t_due_date = the dd,
                    t_created_at = the c, t_updated_at = the u\<rparr>)"

definition Task_dict :: "Task \<Rightarrow> doc" where
  "Task_dict t =
     [(''id'', VStr (t_id t)), (''board_id'', VStr (t_board_id t)),
      (''title'', VStr (t_title t)), (''description'', opt_str (t_description t)),
      (''priority'', VStr (TaskPriority_value (t_priority t))),
      (''column'', VStr (TaskColumn_value (t_column t))),
      (''due_date'', opt_datetime (t_due_date t)),
      (''created_at'', VDatetime (t_created_at t)),
      (''updated_at'', VDatetime (t_updated_at t))]"

definition TaskCreate_dict :: "TaskCreate \<Rightarrow> doc" where
  "TaskCreate_dict x =
     [(''title'', VStr (tc_title x)), (''description'', opt_str (tc_description x)),
      (''priority'', VStr (TaskPriority_value (tc_priority x))),
      (''due_date'', opt_datetime (tc_due_date x))]"

definition TaskUpdate_dict :: "TaskUpdate \<Rightarrow> doc" where
  "TaskUpdate_dict x =
     [(''title'', opt_str (tu_title x)), (''description'', opt_str (tu_description x)),
      (''priority'', opt_str (map_option TaskPriority_value (tu_priority x))),
      (''column'', opt_str (map_option TaskColumn_value (tu_column x))),
      (''due_date'', opt_datetime (tu_due_date x))]"

text \<open>A list comprehension over model constructions fails as a whole at the first failure.\<close>

fun sequence :: "(error + 'a) list \<Rightarrow> error + 'a list" where
  "sequence [] = Inr []"
| "sequence (Inl e # rs) = Inl e"
| "sequence (Inr x # rs) = (case sequence rs of Inl e \<Rightarrow> Inl e | Inr xs \<Rightarrow> Inr (x # xs))"

section \<open>Route handlers\<close>

text \<open>
  Every handler takes the store and returns its response, or the error it raises, together
  with the store it leaves. \<open>NotFound\<close> is \<^verbatim>\<open>HTTPException(status_code=404)\<close>. A
  document that \<^verbatim>\<open>find_one\<close> returns is never empty, so \<^verbatim>\<open>if not board\<close> tests
  for \<^verbatim>\<open>None\<close>.
\<close>

subsection \<open>Boards\<close>

definition get_boards :: "env \<Rightarrow> store \<Rightarrow> (error + Board list) \<times> store" where
  "get_boards e s =
     (sequence (map (\<lambda>board. Board_init e (parse_from_mongo board)) (find_all [] (boards s))),
      s)"

definition create_board :: "env \<Rightarrow> BoardCreate \<Rightarrow> store \<Rightarrow> (error + Board) \<times> store" where
  "create_board e board_data s =
     (case Board_init e (BoardCreate_dict board_data) of
        Inl err \<Rightarrow> (Inl err, s)
      | Inr board \<Rightarrow>
          (let board_dict = prepare_for_mongo (Board_dict board)
           in (Inr board, s\<lparr>boards := insert_one board_dict (boards s)\<rparr>)))"

definition get_board :: "env \<Rightarrow> string \<Rightarrow> store \<Rightarrow> (error + Board) \<times> store" where
  "get_board e board_id s =
     (case find_one [(''id'', VStr board_id)] (boards s) of
        None \<Rightarrow> (Inl NotFound, s)
      | Some board \<Rightarrow> (Board_init e (parse_from_mongo board), s))"

definition update_board ::
  "env \<Rightarrow> datetime \<Rightarrow> string \<Rightarrow> BoardUpdate \<Rightarrow> store \<Rightarrow> (error + Board) \<times> store" where
  "update_board e now board_id board_update s =
     (case find_one [(''id'', VStr board_id)] (boards s) of
        None \<Rightarrow> (Inl NotFound, s)
      | Some board \<Rightarrow>
          (let update_data = filter (\<lambda>(k, v). v \<noteq> VNone) (BoardUpdate_dict board_update);
               update_data = AList.update ''updated_at'' (VDatetime now) update_data;
               update_data = prepare_for_mongo update_data;
               s' = s\<lparr>boards := update_one [(''id'', VStr board_id)] update_data (boards s)\<rparr>
           in (case find_one [(''id'', VStr board_id)] (boards s') of
                 None \<Rightarrow> Inl TypeError
               | Some updated_board \<Rightarrow> Board_init e (parse_from_mongo updated_board),
               s')))"

text \<open>The two deletions of \<^verbatim>\<open>delete_board\<close>, in the order the handler awaits them.\<close>

definition delete_board_tasks :: "string \<Rightarrow> store \<Rightarrow> store" where
  "delete_board_tasks board_id s =
     s\<lparr>tasks := delete_many [(''board_id'', VStr board_id)] (tasks s)\<rparr>"

definition delete_board_doc :: "string \<Rightarrow> store \<Rightarrow> store" where
  "delete_board_doc board_id s =
     s\<lparr>boards := delete_one [(''id'', VStr board_id)] (boards s)\<rparr>"

definition delete_board :: "string \<Rightarrow> store \<Rightarrow> (error + string) \<times> store" where
  "delete_board board_id s =
     (case find_one [(''id'', VStr board_id)] (boards s) of
        None \<Rightarrow> (Inl NotFound, s)
      | Some board \<Rightarrow>
          (Inr ''Board deleted successfully'',
           delete_board_doc board_id (delete_board_tasks board_id s)))"

subsection \<open>Tasks\<close>

definition get_board_tasks ::
  "env \<Rightarrow> string \<Rightarrow> TaskPriority option \<Rightarrow> TaskColumn option \<Rightarrow> store
   \<Rightarrow> (error + Task list) \<times> store" where
  "get_board_tasks e board_id priority column s =
     (case find_one [(''id'', VStr board_id)] (boards s) of
        None \<Rightarrow> (Inl NotFound, s)
      | Some board \<Rightarrow>
          (let filter_query = [(''board_id'', VStr board_id)];
               filter_query =
                 (case priority of
                    None \<Rightarrow> filter_query
                  | Some p \<Rightarrow>
                      if TaskPriority_value p \<noteq> []
                      then AList.update ''priority'' (VStr (TaskPriority_value p)) filter_query
                      else filter_query);
               filter_query =
                 (case column of
                    None \<Rightarrow> filter_query
                  | Some c \<Rightarrow>
                      if TaskColumn_value c \<noteq> []
                      then AList.update ''column'' (VStr (TaskColumn_value c)) filter_query
                      else filter_query);
               found = find_all filter_query (tasks s)
           in (sequence (map (\<lambda>task. Task_init e (parse_from_mongo task)) found), s)))"

definition create_task ::
  "env \<Rightarrow> string \<Rightarrow> TaskCreate \<Rightarrow> store \<Rightarrow> (error + Task) \<times> store" where
  "create_task e board_id task_data s =
     (case find_one [(''id'', VStr board_id)] (boards s) of
        None \<Rightarrow> (Inl NotFound, s)
      | Some board \<Rightarrow>
          (case Task_init e ((''board_id'', VStr board_id) # TaskCreate_dict task_data) of
             Inl err \<Rightarrow> (Inl err, s)
           | Inr task \<Rightarrow>
               (let task_dict = prepare_for_mongo (Task_dict task)
                in (Inr task, s\<lparr>tasks := insert_one task_dict (tasks s)\<rparr>))))"

definition get_task :: "env \<Rightarrow> string \<Rightarrow> store \<Rightarrow> (error + Task) \<times> store" where
  "get_task e task_id s =
     (case find_one [(''id'', VStr task_id)] (tasks s) of
        None \<Rightarrow> (Inl NotFound, s)
      | Some task \<Rightarrow> (Task_init e (parse_from_mongo task), s))"

definition update_task ::
  "env \<Rightarrow> datetime \<Rightarrow> string \<Rightarrow> TaskUpdate \<Rightarrow> store \<Rightarrow> (error + Task) \<times> store" where
  "update_task e now task_id task_update s =
     (case find_one [(''id'', VStr task_id)] (tasks s) of
        None \<Rightarrow> (Inl NotFound, s)
      | Some task \<Rightarrow>
          (let update_data = filter (\<lambda>(k, v). v \<noteq> VNone) (TaskUpdate_dict task_update);
               update_data = AList.update ''updated_at'' (VDatetime now) update_data;
               update_data = prepare_for_mongo update_data;
               s' = s\<lparr>tasks := update_one [(''id'', VStr task_id)] update_data (tasks s)\<rparr>
           in (case find_one [(''id'', VStr task_id)] (tasks s') of
                 None \<Rightarrow> Inl TypeError
               | Some updated_task \<Rightarrow> Task_init e (parse_from_mongo updated_task),
               s')))"

definition move_task ::
  "env \<Rightarrow> datetime \<Rightarrow> string \<Rightarrow> TaskColumn \<Rightarrow> store \<Rightarrow> (error + Task) \<times> store" where
  "move_task e now task_id move_data s =
     (case find_one [(''id'', VStr task_id)] (tasks s) of
        None \<Rightarrow> (Inl NotFound, s)
      | Some task \<Rightarrow>
          (let update_data = [(''column'', VStr (TaskColumn_value move_data)),
                              (''updated_at'', VDatetime now)];
               update_data = prepare_for_mongo update_data;
               s' = s\<lparr>tasks := update_one [(''id'', VStr task_id)] update_data (tasks s)\<rparr>
           in (case find_one [(''id'', VStr task_id)] (tasks s') of
                 None \<Rightarrow> Inl TypeError
               | Some updated_task \<Rightarrow> Task_init e (parse_from_mongo updated_task),
               s')))"

definition delete_task :: "string \<Rightarrow> store \<Rightarrow> (error + string) \<times> store" where
  "delete_task task_id s =
     (case find_one [(''id'', VStr task_id)] (tasks s) of
        None \<Rightarrow> (Inl NotFound, s)
      | Some task \<Rightarrow>
          (Inr ''Task deleted successfully'',
           s\<lparr>tasks := delete_one [(''id'', VStr task_id)] (tasks s)\<rparr>))"

section \<open>Request bodies\<close>

text \<open>
  Before a handler runs, its request model is built from the JSON body. A key of the body
  is absent, \<^verbatim>\<open>null\<close>, or carries a value of the field's type. A field declared
  \<^verbatim>\<open>str\<close> is required and rejects \<^verbatim>\<open>null\<close>; a field declared
  \<^verbatim>\<open>Optional[...] = default\<close> takes its default when absent and \<^verbatim>\<open>None\<close> when
  \<^verbatim>\<open>null\<close>.
\<close>

datatype 'a field = Omitted | Null | Given 'a

definition required :: "'a field \<Rightarrow> 'a option" where
  "required f = (case f of Given x \<Rightarrow> Some x | _ \<Rightarrow> None)"

definition optional :: "'a option \<Rightarrow> 'a field \<Rightarrow> 'a option" where
  "optional dflt f = (case f of Omitted \<Rightarrow> dflt | Null \<Rightarrow> None | Given x \<Rightarrow> Some x)"

record BoardCreate_body =
  bcb_name :: "string field"
  bcb_description :: "string field"

record BoardUpdate_body =
  bub_name :: "string field"
  bub_description :: "string field"

record TaskUpdate_body =
  tub_title :: "string field"
  tub_description :: "string field"
  tub_priority :: "TaskPriority field"
  tub_column :: "TaskColumn field"
  tub_due_date :: "datetime field"

definition BoardCreate_parse :: "BoardCreate_body \<Rightarrow> error + BoardCreate" where
  "BoardCreate_parse body =
     (case required (bcb_name body) of
        None \<Rightarrow> Inl ValidationError
      | Some n \<Rightarrow>
          Inr \<lparr>bc_name = n, bc_description = optional (Some '''') (bcb_description body)\<rparr>)"

definition BoardUpdate_parse :: "BoardUpdate_body \<Rightarrow> BoardUpdate" where
  "BoardUpdate_parse body =
     \<lparr>bu_name = optional None (bub_name body),
      bu_description = optional None (bub_description body)\<rparr>"

definition TaskUpdate_parse :: "TaskUpdate_body \<Rightarrow> TaskUpdate" where
  "TaskUpdate_parse body =
     \<lparr>tu_title = optional None (tub_title body),
      tu_description = optional None (tub_description body),
      tu_priority = optional None (tub_priority body),
      tu_column = optional None (tub_column body),
      tu_due_date = optional None (tub_due_date body)\<rparr>"

definition post_boards ::
  "env \<Rightarrow> BoardCreate_body \<Rightarrow> store \<Rightarrow> (error + Board) \<times> store" where
  "post_boards e body s =
     (case BoardCreate_parse body of
        Inl err \<Rightarrow> (Inl err, s)
      | Inr board_data \<Rightarrow> create_board e board_data s)"

definition put_board ::
  "env \<Rightarrow> datetime \<Rightarrow> string \<Rightarrow> BoardUpdate_body \<Rightarrow> store \<Rightarrow> (error + Board) \<times> store" where
  "put_board e now board_id body s = update_board e now board_id (BoardUpdate_parse body) s"

definition put_task ::
  "env \<Rightarrow> datetime \<Rightarrow> string \<Rightarrow> TaskUpdate_body \<Rightarrow> store \<Rightarrow> (error + Task) \<times> store" where
  "put_task e now task_id body s = update_task e now task_id (TaskUpdate_parse body) s"

section \<open>Stored documents\<close>

text \<open>
  The shape of the documents that the handlers write: every field of the model is present,
  strings are strings, and a timestamp is text that \<^verbatim>\<open>fromisoformat\<close> reads.
\<close>

definition is_str :: "val option \<Rightarrow> bool" where
  "is_str v = (case v of Some (VStr s) \<Rightarrow> True | _ \<Rightarrow> False)"

definition is_opt_str :: "val option \<Rightarrow> bool" where
  "is_opt_str v = (case v of Some (VStr s) \<Rightarrow> True | Some VNone \<Rightarrow> True | _ \<Rightarrow> False)"

definition is_iso :: "val option \<Rightarrow> bool" where
  "is_iso v = (case v of Some (VStr s) \<Rightarrow> fromisoformat s \<noteq> None | _ \<Rightarrow> False)"

definition is_opt_iso :: "val option \<Rightarrow> bool" where
  "is_opt_iso v =
     (case v of Some (VStr s) \<Rightarrow> fromisoformat s \<noteq> None | Some VNone \<Rightarrow> True | _ \<Rightarrow> False)"

definition is_priority :: "val option \<Rightarrow> bool" where
  "is_priority v = (case v of Some (VStr s) \<Rightarrow> TaskPriority_of s \<noteq> None | _ \<Rightarrow> False)"

definition is_column :: "val option \<Rightarrow> bool" where
  "is_column v = (case v of Some (VStr s) \<Rightarrow> TaskColumn_of s \<noteq> None | _ \<Rightarrow> False)"

definition board_doc :: "doc \<Rightarrow> bool" where
  "board_doc d =
     (is_str (map_of d ''id'') \<and> is_str (map_of d ''name'') \<and>
      is_opt_str (map_of d ''description'') \<and>
      is_iso (map_of d ''created_at'') \<and> is_iso (map_of d ''updated_at''))"

definition task_doc :: "doc \<Rightarrow> bool" where
  "task_doc d =
     (is_str (map_of d ''id'') \<and> is_str (map_of d ''board_id'') \<and>
      is_str (map_of d ''title'') \<and> is_opt_str (map_of d ''description'') \<and>
      is_priority (map_of d ''priority'') \<and> is_column (map_of d ''column'') \<and>
      is_opt_iso (map_of d ''due_date'') \<and>
      is_iso (map_of d ''created_at'') \<and> is_iso (map_of d ''updated_at''))"

definition doc_ids :: "doc list \<Rightarrow> val option list" where
  "doc_ids coll = map (\<lambda>d. map_of d ''id'') coll"

definition wf_store :: "store \<Rightarrow> bool" where
  "wf_store s =
     (list_all board_doc (boards s) \<and> list_all task_doc (tasks s) \<and>
      distinct (doc_ids (boards s)) \<and> distinct (doc_ids (tasks s)))"

section \<open>A sample store\<close>

text \<open>
  Board \<open>b1\<close> with three tasks and board \<open>b2\<close> with one, as the handlers store them.
  The sample is used to run the handlers on concrete requests.
\<close>

definition ex_t0 :: datetime where
  "ex_t0 = \<lparr>year = 2024, month = 1, day = 15, hour = 10, minute = 30, second = 0,
            microsecond = 0, utcoffset = Some 0\<rparr>"

definition ex_t1 :: datetime where
  "ex_t1 = \<lparr>year = 2024, month = 1, day = 16, hour = 9, minute = 0, second = 5,
            microsecond = 123456, utcoffset = Some 0\<rparr>"

definition ex_early :: datetime where
  "ex_early = \<lparr>year = 2023, month = 12, day = 31, hour = 23, minute = 59, second = 59,
               microsecond = 0, utcoffset = Some 0\<rparr>"

definition ex_due :: datetime where
  "ex_due = \<lparr>year = 2024, month = 2, day = 1, hour = 12, minute = 0, second = 0,
             microsecond = 0, utcoffset = Some 19800000000\<rparr>"

definition ex_env :: env where
  "ex_env = \<lparr>uuid4 = ''t9'', now_created = ex_t1, now_updated = ex_t1,
             parse_datetime = (\<lambda>s. None)\<rparr>"

definition ex_board1 :: doc where
  "ex_board1 =
     [(''id'', VStr ''b1''), (''name'', VStr ''Sprint 1''), (''description'', VStr ''''),
      (''created_at'', VStr ''2024-01-15T10:30:00+00:00''),
      (''updated_at'', VStr ''2024-01-15T10:30:00+00:00'')]"

definition ex_board2 :: doc where
  "ex_board2 =
     [(''id'', VStr ''b2''), (''name'', VStr ''Backlog''), (''description'', VNone),
      (''created_at'', VStr ''2024-01-15T10:30:00+00:00''),
      (''updated_at'', VStr ''2024-01-15T10:30:00+00:00'')]"

definition ex_task1 :: doc where
  "ex_task1 =
     [(''id'', VStr ''t1''), (''board_id'', VStr ''b1''), (''title'', VStr ''Fix bug''),
      (''description'', VStr ''''), (''priority'', VStr ''high''), (''column'', VStr ''todo''),
      (''due_date'', VStr ''2024-02-01T12:00:00+05:30''),
      (''created_at'', VStr ''2024-01-15T10:30:00+00:00''),
      (''updated_at'', VStr ''2024-01-15T10:30:00+00:00'')]"

definition ex_task2 :: doc where
  "ex_task2 =
     [(''id'', VStr ''t2''), (''board_id'', VStr ''b1''), (''title'', VStr ''Write docs''),
      (''description'', VStr ''''), (''priority'', VStr ''low''), (''column'', VStr ''done''),
      (''due_date'', VNone),
      (''created_at'', VStr ''2024-01-15T10:30:00+00:00''),
      (''updated_at'', VStr ''2024-01-15T10:30:00+00:00'')]"

definition ex_task3 :: doc where
  "ex_task3 =
     [(''id'', VStr ''t3''), (''board_id'', VStr ''b1''), (''title'', VStr ''Release''),
      (''description'', VStr ''''), (''priority'', VStr ''high''), (''column'', VStr ''done''),
      (''due_date'', VNone),
      (''created_at'', VStr ''2024-01-15T10:30:00+00:00''),
      (''updated_at'', VStr ''2024-01-15T10:30:00+00:00'')]"

definition ex_task4 :: doc where
  "ex_task4 =
     [(''id'', VStr ''t4''), (''board_id'', VStr ''b2''), (''title'', VStr ''Plan''),
      (''description'', VStr ''''), (''priority'', VStr ''high''), (''column'', VStr ''todo''),
      (''due_date'', VNone),
      (''created_at'', VStr ''2024-01-15T10:30:00+00:00''),
      (''updated_at'', VStr ''2024-01-15T10:30:00+00:00'')]"

definition ex_store :: store where
  "ex_store = \<lparr>boards = [ex_board1, ex_board2],
               tasks = [ex_task1, ex_task2, ex_task3, ex_task4]\<rparr>"

definition ex_Board1 :: Board where
  "ex_Board1 = \<lparr>b_id = ''b1'', b_name = ''Sprint 1'', b_description = Some '''',
                b_created_at = ex_t0, b_updated_at = ex_t0\<rparr>"

definition ex_Task1 :: Task where
  "ex_Task1 = \<lparr>t_id = ''t1'', t_board_id = ''b1'', t_title = ''Fix bug'',
               t_description = Some '''', t_priority = high, t_column = todo,
               t_due_date = Some ex_due, t_created_at = ex_t0, t_updated_at = ex_t0\<rparr>"

definition ex_Task2 :: Task where
  "ex_Task2 = \<lparr>t_id = ''t2'', t_board_id = ''b1'', t_title = ''Write docs'',
               t_description = Some '''', t_priority = low, t_column = done_col,
               t_due_date = None, t_created_at = ex_t0, t_updated_at = ex_t0\<rparr>"

definition ex_Task3 :: Task where
  "ex_Task3 = \<lparr>t_id = ''t3'', t_board_id = ''b1'', t_title = ''Release'',
               t_description = Some '''', t_priority = high, t_column = done_col,
               t_due_date = None, t_created_at = ex_t0, t_updated_at = ex_t0\<rparr>"

definition ex_Task4 :: Task where
  "ex_Task4 = \<lparr>t_id = ''t4'', t_board_id = ''b2'', t_title = ''Plan'',
               t_description = Some '''', t_priority = high, t_column = todo,
               t_due_date = None, t_created_at = ex_t0, t_updated_at = ex_t0\<rparr>"

definition ex_TaskCreate :: TaskCreate where
  "ex_TaskCreate = \<lparr>tc_title = ''New task'', tc_description = Some '''',
                    tc_priority = medium, tc_due_date = Some ex_due\<rparr>"

section \<open>Reading back what \<^verbatim>\<open>isoformat\<close> prints\<close>

lemma digit_val_digit_char: "d < 10 \<Longrightarrow> digit_val (digit_char d) = Some d"
proof -
  assume "d < 10"
  then have "d \<in> {0,1,2,3,4,5,6,7,8,9}" by auto
  then show ?thesis
    by (auto simp: digit_val_def digit_char_def)
qed

lemma digit_char_in: "d < 10 \<Longrightarrow> digit_char d \<in> set ''0123456789''"
  by (simp add: digit_char_def del: set_simps)

lemma parse_digits_append:
  "parse_digits (xs @ ys) a =
     (case parse_digits xs a of None \<Rightarrow> None | Some b \<Rightarrow> parse_digits ys b)"
  by (induction xs arbitrary: a) (auto split: option.splits)

lemma parse_digits_dec: "parse_digits (dec n) a = Some (a * 10 ^ length (dec n) + n)"
proof (induction n arbitrary: a rule: dec.induct)
  case (1 n)
  show ?case
  proof (cases "n < 10")
    case True
    then show ?thesis
      by (subst (1 2) dec.simps) (simp add: digit_val_digit_char)
  next
    case False
    have m: "n mod 10 < 10" by simp
    from False 1 show ?thesis
      by (subst (1 2) dec.simps)
         (simp add: parse_digits_append digit_val_digit_char [OF m] algebra_simps)
  qed
qed

lemma parse_digits_zeros: "parse_digits (replicate k (CHR ''0'')) a = Some (a * 10 ^ k)"
  by (induction k arbitrary: a) (auto simp: digit_val_def)

lemma dec_nonempty: "dec n \<noteq> []"
  by (subst dec.simps) simp

lemma py_int_zpad: "py_int (zpad w n) = Some n"
  by (simp add: py_int_def zpad_def dec_nonempty parse_digits_append parse_digits_zeros
      parse_digits_dec)

lemma length_dec: "0 < k \<Longrightarrow> n < 10 ^ k \<Longrightarrow> length (dec n) \<le> k"
proof (induction n arbitrary: k rule: dec.induct)
  case (1 n)
  show ?case
  proof (cases "n < 10")
    case True
    with 1(2) show ?thesis by (subst dec.simps) simp
  next
    case False
    from False 1(3) have "k \<noteq> 1" by auto
    with 1(2) obtain j where j: "k = Suc j" "0 < j" by (cases k) auto
    with 1(3) have "n div 10 < 10 ^ j"
      by (simp add: less_mult_imp_div_less mult.commute)
    with 1(1) [OF False j(2)] have "length (dec (n div 10)) \<le> j" by simp
    with False j show ?thesis by (subst dec.simps) simp
  qed
qed

lemma length_zpad: "0 < w \<Longrightarrow> n < 10 ^ w \<Longrightarrow> length (zpad w n) = w"
  using length_dec [of w n] by (simp add: zpad_def)

lemma set_dec: "c \<in> set (dec n) \<Longrightarrow> digit_val c \<noteq> None"
proof (induction n rule: dec.induct)
  case (1 n)
  have m: "n mod 10 < 10" by simp
  show ?case
  proof (cases "n < 10")
    case True
    with 1(2) show ?thesis
      by (subst (asm) dec.simps) (simp add: digit_val_digit_char)
  next
    case False
    with 1 show ?thesis
      by (subst (asm) (2) dec.simps) (auto simp: digit_val_digit_char [OF m])
  qed
qed

lemma set_zpad: "c \<in> set (zpad w n) \<Longrightarrow> digit_val c \<noteq> None"
proof -
  have z: "digit_val (CHR ''0'') \<noteq> None" by (simp add: digit_val_def)
  assume "c \<in> set (zpad w n)"
  with z set_dec [of c n] show ?thesis by (auto simp: zpad_def)
qed

lemma not_digit: "digit_val (CHR ''-'') = None" "digit_val (CHR ''+'') = None"
  "digit_val (CHR '':'') = None" "digit_val (CHR ''.'') = None"
  by (simp_all add: digit_val_def)

lemma zpad_no_sep:
  "CHR ''-'' \<notin> set (zpad w n)" "CHR ''+'' \<notin> set (zpad w n)"
  using set_zpad not_digit by blast+

lemma zpad_nonempty: "zpad w n \<noteq> []"
  by (simp add: zpad_def dec_nonempty)

lemma parse_isoformat_date_zpad:
  assumes "y < 10000" "m < 100" "d < 100"
  shows "parse_isoformat_date (zpad 4 y @ ''-'' @ zpad 2 m @ ''-'' @ zpad 2 d @ rest)
         = Some (y, m, d)"
proof -
  have l: "length (zpad 4 y) = 4" "length (zpad 2 m) = 2" "length (zpad 2 d) = 2"
    using assms by (simp_all add: length_zpad)
  show ?thesis
    by (simp add: parse_isoformat_date_def slice_def l py_int_zpad)
qed

lemma parse_hh_mm_ss_step:
  assumes "v < 100"
  shows "parse_hh_mm_ss (Suc n) (zpad 2 v @ r) =
           (if r = [] \<or> n = 0 then Some ([v], r)
            else if hd r \<noteq> CHR '':'' then None
            else (case parse_hh_mm_ss n (tl r) of
                    None \<Rightarrow> None
                  | Some (vs, r') \<Rightarrow> Some (v # vs, r')))"
proof -
  have l: "length (zpad 2 v) = 2" using assms by (simp add: length_zpad)
  show ?thesis by (simp add: l py_int_zpad)
qed

lemma parse_hh_mm_ss_3:
  assumes "h < 100" "m < 100" "s < 100"
  shows "parse_hh_mm_ss 3 (zpad 2 h @ '':'' @ zpad 2 m @ '':'' @ zpad 2 s @ rest)
         = Some ([h, m, s], rest)"
  using assms
  by (simp add: numeral_3_eq_3 parse_hh_mm_ss_step del: parse_hh_mm_ss.simps)

lemma parse_hh_mm_ss_2:
  assumes "h < 100" "m < 100"
  shows "parse_hh_mm_ss 3 (zpad 2 h @ '':'' @ zpad 2 m) = Some ([h, m], [])"
  using assms parse_hh_mm_ss_step [of m "Suc 0" "[]"]
  by (simp add: numeral_3_eq_3 parse_hh_mm_ss_step del: parse_hh_mm_ss.simps)

lemma parse_hh_mm_ss_ff_time:
  assumes "h < 100" "m < 100" "s < 100" "us < 1000000"
  shows "parse_hh_mm_ss_ff (format_time h m s us) = Some (h, m, s, us)"
proof -
  have l: "length (zpad 6 us) = 6" using assms by (simp add: length_zpad)
  show ?thesis
  proof (cases "us = 0")
    case True
    then show ?thesis
      using parse_hh_mm_ss_3 [OF assms(1-3), of "[]"]
      by (simp add: parse_hh_mm_ss_ff_def format_time_def comp_at_def)
  next
    case False
    then show ?thesis
      using parse_hh_mm_ss_3 [OF assms(1-3), of "''.'' @ zpad 6 us"]
      by (simp add: parse_hh_mm_ss_ff_def format_time_def comp_at_def l py_int_zpad)
  qed
qed


lemma format_time_no_sep:
  "CHR ''-'' \<notin> set (format_time h m s us)" "CHR ''+'' \<notin> set (format_time h m s us)"
  by (simp_all add: format_time_def zpad_no_sep)

lemma length_format_time: "2 \<le> length (format_time h m s us)"
  by (simp add: format_time_def)

lemma py_find_absent: "c \<notin> set s \<Longrightarrow> py_find s c = - 1"
  by (simp add: py_find_def)

lemma takeWhile_upto: "c \<notin> set xs \<Longrightarrow> takeWhile (\<lambda>x. x \<noteq> c) (xs @ c # ys) = xs"
  by (induction xs) auto

lemma py_find_first: "c \<notin> set xs \<Longrightarrow> py_find (xs @ c # ys) c = int (length xs)"
  by (simp add: py_find_def takeWhile_upto)

lemma offset_body:
  assumes "hh < 100" "mm < 100" "ss < 60000000"
  defines "B \<equiv> zpad 2 hh @ '':'' @ zpad 2 mm @
              (if ss \<noteq> 0
               then '':'' @ zpad 2 (ss div 1000000) @
                    (if ss mod 1000000 \<noteq> 0 then ''.'' @ zpad 6 (ss mod 1000000) else [])
               else [])"
  shows "parse_hh_mm_ss_ff B = Some (hh, mm, ss div 1000000, ss mod 1000000)"
    and "length B \<in> {5, 8, 15}"
    and "CHR ''-'' \<notin> set B" and "CHR ''+'' \<notin> set B"
proof -
  have s1: "ss div 1000000 < 100" using assms(3) by simp
  have l: "length (zpad 2 hh) = 2" "length (zpad 2 mm) = 2"
    "length (zpad 2 (ss div 1000000)) = 2" "length (zpad 6 (ss mod 1000000)) = 6"
    using assms(1,2) s1 by (simp_all add: length_zpad)
  show "length B \<in> {5, 8, 15}" by (simp add: B_def l)
  show "CHR ''-'' \<notin> set B" "CHR ''+'' \<notin> set B" by (simp_all add: B_def zpad_no_sep)
  show "parse_hh_mm_ss_ff B = Some (hh, mm, ss div 1000000, ss mod 1000000)"
  proof (cases "ss = 0")
    case True
    then show ?thesis
      using parse_hh_mm_ss_2 [OF assms(1,2)]
      by (simp add: B_def parse_hh_mm_ss_ff_def comp_at_def)
  next
    case False
    show ?thesis
    proof (cases "ss mod 1000000 = 0")
      case True
      with False show ?thesis
        using parse_hh_mm_ss_3 [OF assms(1,2) s1, of "[]"]
        by (simp add: B_def parse_hh_mm_ss_ff_def comp_at_def)
    next
      case nz: False
      with False show ?thesis
        using parse_hh_mm_ss_3 [OF assms(1,2) s1, of "''.'' @ zpad 6 (ss mod 1000000)"]
        by (simp add: B_def parse_hh_mm_ss_ff_def comp_at_def l py_int_zpad)
    qed
  qed
qed

lemma parse_isoformat_time_naive:
  assumes "parse_hh_mm_ss_ff T = Some tc" "CHR ''-'' \<notin> set T" "CHR ''+'' \<notin> set T"
    "2 \<le> length T"
  shows "parse_isoformat_time (T @ format_offset None) = Some (tc, None)"
  using assms by (simp add: parse_isoformat_time_def format_offset_def py_find_absent)

lemma parse_isoformat_time_aware:
  assumes T: "parse_hh_mm_ss_ff T = Some tc" "CHR ''-'' \<notin> set T" "CHR ''+'' \<notin> set T"
    "2 \<le> length T" and d: "\<bar>d\<bar> < 86400000000"
  shows "parse_isoformat_time (T @ format_offset (Some d)) = Some (tc, Some d)"
proof -
  define a where "a = nat \<bar>d\<bar>"
  define hh where "hh = a div 3600000000"
  define r where "r = a mod 3600000000"
  define mm where "mm = r div 60000000"
  define ss where "ss = r mod 60000000"
  define B where "B = zpad 2 hh @ '':'' @ zpad 2 mm @
              (if ss \<noteq> 0
               then '':'' @ zpad 2 (ss div 1000000) @
                    (if ss mod 1000000 \<noteq> 0 then ''.'' @ zpad 6 (ss mod 1000000) else [])
               else [])"
  define sg where "sg = (if d < 0 then CHR ''-'' else CHR ''+'')"
  have a: "a < 86400000000" using d by (simp add: a_def)
  have b: "hh < 100" "mm < 100" "ss < 60000000"
    using a by (simp_all add: hh_def mm_def ss_def r_def)
  note ob = offset_body [OF b, folded B_def]
  have fo: "format_offset (Some d) = sg # B"
    by (simp add: format_offset_def Let_def sg_def B_def a_def hh_def r_def mm_def ss_def)
  have recon: "hh * 3600000000 + mm * 60000000 + (ss div 1000000) * 1000000 + ss mod 1000000 = a"
    by (simp add: hh_def mm_def ss_def r_def)
  have tzpos: "(if py_find (T @ sg # B) (CHR ''-'') + 1 \<noteq> 0
                then py_find (T @ sg # B) (CHR ''-'') + 1
                else py_find (T @ sg # B) (CHR ''+'') + 1) = int (Suc (length T))"
  proof (cases "d < 0")
    case True
    then show ?thesis using py_find_first [OF T(2), of B] by (simp add: sg_def)
  next
    case False
    then have "py_find (T @ sg # B) (CHR ''-'') = - 1"
      using T(2) ob(3) by (simp add: py_find_absent sg_def)
    then show ?thesis using py_find_first [OF T(3), of B] False by (simp add: sg_def)
  qed
  have "a = 0 \<longleftrightarrow> hh = 0 \<and> mm = 0 \<and> ss div 1000000 = 0 \<and> ss mod 1000000 = 0"
    unfolding recon [symmetric] by auto
  then have zero: "hh = 0 \<and> mm = 0 \<and> ss div 1000000 = 0 \<and> ss mod 1000000 = 0 \<longleftrightarrow> d = 0"
    by (simp add: a_def)
  have td: "(if sg = CHR ''-'' then - 1 else 1) *
            (int hh * 3600000000 + int mm * 60000000 + int (ss div 1000000) * 1000000
             + int (ss mod 1000000)) = d"
  proof -
    have "int hh * 3600000000 + int mm * 60000000 + int (ss div 1000000) * 1000000
             + int (ss mod 1000000) = int a"
      using recon by (metis (no_types, lifting) of_nat_add of_nat_mult of_nat_numeral)
    then show ?thesis by (simp add: sg_def a_def)
  qed
  have parts: "take (length T) (T @ sg # B) = T" "drop (Suc (length T)) (T @ sg # B) = B"
    "(T @ sg # B) ! length T = sg" "\<not> length (T @ sg # B) < 2"
    using T(4) by auto
  have pos: "int (Suc (length T)) > 0" "nat (int (Suc (length T)) - 1) = length T"
    "nat (int (Suc (length T))) = Suc (length T)"
    by simp_all
  have len: "length B \<notin> {5, 8, 15} \<longleftrightarrow> False" using ob(2) by simp
  show ?thesis
    unfolding fo parse_isoformat_time_def tzpos
    apply (simp only: Let_def pos parts len if_True if_False T(1) ob(1) option.case prod.case)
    using zero td d
    apply simp
    done
qed


lemma parse_isoformat_time_format:
  assumes "h < 100" "m < 100" "s < 100" "us < 1000000"
    and "case off of None \<Rightarrow> True | Some d \<Rightarrow> \<bar>d\<bar> < 86400000000"
  shows "parse_isoformat_time (format_time h m s us @ format_offset off)
         = Some ((h, m, s, us), off)"
proof (cases off)
  case None
  then show ?thesis
    using parse_isoformat_time_naive [OF parse_hh_mm_ss_ff_time [OF assms(1-4)]
        format_time_no_sep length_format_time]
    by simp
next
  case (Some d)
  with assms(5) have "\<bar>d\<bar> < 86400000000" by simp
  with Some show ?thesis
    using parse_isoformat_time_aware [OF parse_hh_mm_ss_ff_time [OF assms(1-4)]
        format_time_no_sep length_format_time]
    by simp
qed

lemma fromisoformat_isoformat:
  assumes "valid_datetime d"
  shows "fromisoformat (isoformat d) = Some d"
proof -
  define D where "D = zpad 4 (year d) @ ''-'' @ zpad 2 (month d) @ ''-'' @ zpad 2 (day d)"
  define T where "T = format_time (hour d) (minute d) (second d) (microsecond d) @
                      format_offset (utcoffset d)"
  have dim: "days_in_month (year d) (month d) \<le> 31"
  proof -
    have "1 \<le> month d" "month d \<le> 12"
      using assms by (simp_all add: valid_datetime_def)
    then have "month d = 1 \<or> month d = 2 \<or> month d = 3 \<or> month d = 4 \<or> month d = 5
        \<or> month d = 6 \<or> month d = 7 \<or> month d = 8 \<or> month d = 9 \<or> month d = 10
        \<or> month d = 11 \<or> month d = 12"
      by arith
    then show ?thesis by (auto simp: days_in_month_def)
  qed
  have b: "year d < 10000" "month d < 100" "day d < 100" "hour d < 100" "minute d < 100"
    "second d < 100" "microsecond d < 1000000"
    using assms dim by (auto simp: valid_datetime_def)
  have off: "case utcoffset d of None \<Rightarrow> True | Some x \<Rightarrow> \<bar>x\<bar> < 86400000000"
    using assms by (simp add: valid_datetime_def)
  have lD: "length D = 10"
    using b(1-3) by (simp add: D_def length_zpad)
  have iso: "isoformat d = D @ CHR ''T'' # T"
    by (simp add: isoformat_def D_def T_def)
  have date: "parse_isoformat_date D = Some (year d, month d, day d)"
    using parse_isoformat_date_zpad [OF b(1-3), of "[]"] by (simp add: D_def)
  have time: "parse_isoformat_time T
              = Some ((hour d, minute d, second d, microsecond d), utcoffset d)"
    unfolding T_def by (rule parse_isoformat_time_format [OF b(4-7) off])
  have Tne: "T \<noteq> []"
    by (simp add: T_def format_time_def zpad_nonempty)
  have mk: "mk_datetime (year d) (month d) (day d) (hour d) (minute d) (second d)
              (microsecond d) (utcoffset d) = Some d"
    using assms by (cases d) (simp add: mk_datetime_def)
  show ?thesis
    by (simp add: fromisoformat_def iso slice_def lD date time Tne mk)
qed

section \<open>Documents and collections: basic facts\<close>

lemma map_of_map_val:
  "map_of (map (\<lambda>(k, v). (k, f k v)) d) k = map_option (f k) (map_of d k)"
  by (induction d) auto

lemma parse_from_mongo_alt:
  "parse_from_mongo d =
     map (\<lambda>(k, v). (k, if k \<in> set [''created_at'', ''updated_at'', ''due_date'']
                        then (case v of
                                VStr s \<Rightarrow> (case fromisoformat s of
                                             Some t \<Rightarrow> VDatetime t | None \<Rightarrow> v)
                              | _ \<Rightarrow> v)
                        else v)) d"
  unfolding parse_from_mongo_def
  by (rule map_cong [OF refl]) (simp split: prod.splits val.splits option.splits del: set_simps)

lemma map_of_parse_from_mongo_other:
  "k \<notin> set [''created_at'', ''updated_at'', ''due_date''] \<Longrightarrow>
   map_of (parse_from_mongo d) k = map_of d k"
  unfolding parse_from_mongo_alt map_of_map_val
  by (simp add: option.map_ident del: set_simps)

lemma map_of_parse_from_mongo_ts:
  "k \<in> set [''created_at'', ''updated_at'', ''due_date''] \<Longrightarrow>
   map_of (parse_from_mongo d) k =
     map_option (\<lambda>v. case v of
                        VStr s \<Rightarrow> (case fromisoformat s of Some t \<Rightarrow> VDatetime t | None \<Rightarrow> v)
                      | _ \<Rightarrow> v) (map_of d k)"
  unfolding parse_from_mongo_alt map_of_map_val
  by (simp del: set_simps)

lemma prepare_for_mongo_alt:
  "prepare_for_mongo d =
     map (\<lambda>(k, v). (k, case v of VDatetime t \<Rightarrow> VStr (isoformat t) | _ \<Rightarrow> v)) d"
  unfolding prepare_for_mongo_def
  by (rule map_cong [OF refl]) (simp split: prod.splits val.splits)

lemma map_of_prepare_for_mongo:
  "map_of (prepare_for_mongo d) k =
     map_option (\<lambda>v. case v of VDatetime t \<Rightarrow> VStr (isoformat t) | _ \<Rightarrow> v) (map_of d k)"
  unfolding prepare_for_mongo_alt map_of_map_val ..

lemma keys_prepare_for_mongo: "map fst (prepare_for_mongo d) = map fst d"
  by (induction d) (auto simp: prepare_for_mongo_def split: val.splits)



lemma map_of_set_fields:
  "map_of (set_fields upd d) k =
     (case map_of (rev upd) k of Some v \<Rightarrow> Some v | None \<Rightarrow> map_of d k)"
proof (induction upd arbitrary: d)
  case Nil
  then show ?case by (simp add: set_fields_def)
next
  case (Cons x upd)
  obtain a b where x: "x = (a, b)" by (cases x)
  have "set_fields (x # upd) d = set_fields upd (AList.update a b d)"
    by (simp add: set_fields_def x)
  then show ?case
    using Cons [of "AList.update a b d"]
    by (auto simp: x update_conv' map_add_def split: option.splits)
qed

lemma map_of_filter_not_None:
  "distinct (map fst xs) \<Longrightarrow>
   map_of (filter (\<lambda>(k, v). v \<noteq> VNone) xs) k =
     (case map_of xs k of Some VNone \<Rightarrow> None | r \<Rightarrow> r)"
proof (induction xs)
  case Nil
  then show ?case by simp
next
  case (Cons x xs)
  obtain a b where x: "x = (a, b)" by (cases x)
  from Cons.prems have "a \<notin> fst ` set xs" by (simp add: x)
  then have "map_of xs a = None" by (simp add: map_of_eq_None_iff)
  with Cons show ?case
    by (auto simp: x split: option.splits val.splits)
qed

lemma matches_single [simp]: "matches [(k, v)] d \<longleftrightarrow> map_of d k = Some v"
  by (simp add: matches_def)


lemma map_of_rev_distinct: "distinct (map fst xs) \<Longrightarrow> map_of (rev xs) = map_of xs"
proof (induction xs)
  case Nil
  then show ?case by simp
next
  case (Cons x xs)
  obtain a b where x: "x = (a, b)" by (cases x)
  from Cons.prems have "a \<notin> fst ` set xs" by (simp add: x)
  then have n: "map_of xs a = None" by (simp add: map_of_eq_None_iff)
  from Cons have ih: "map_of (rev xs) = map_of xs" by simp
  show ?case
  proof
    fix k
    show "map_of (rev (x # xs)) k = map_of (x # xs) k"
      using n by (auto simp: x ih map_add_def split: option.splits)
  qed
qed

subsection \<open>Collections\<close>

lemma find_one_None: "find_one q c = None \<longleftrightarrow> (\<forall>d\<in>set c. \<not> matches q d)"
  by (auto simp: find_one_def find_None_iff)

lemma find_one_Some: "find_one q c = Some d \<Longrightarrow> d \<in> set c \<and> matches q d"
  by (induction c) (auto simp: find_one_def split: if_splits)

lemma find_one_update_one:
  "find_one q c = Some d \<Longrightarrow> matches q (set_fields upd d) \<Longrightarrow>
   find_one q (update_one q upd c) = Some (set_fields upd d)"
  by (induction c) (auto simp: find_one_def split: if_splits)

lemma update_one_absent: "find_one q c = None \<Longrightarrow> update_one q upd c = c"
  by (induction c) (auto simp: find_one_def split: if_splits)

lemma set_update_one:
  "find_one q c = Some d \<Longrightarrow> set (update_one q upd c) \<subseteq> insert (set_fields upd d) (set c)"
  by (induction c) (auto simp: find_one_def split: if_splits)

lemma length_update_one: "length (update_one q upd c) = length c"
  by (induction c) auto

lemma delete_one_distinct:
  "distinct (doc_ids c) \<Longrightarrow>
   delete_one [(''id'', v)] c = filter (\<lambda>d. \<not> matches [(''id'', v)] d) c"
proof (induction c)
  case Nil
  then show ?case by simp
next
  case (Cons d c)
  show ?case
  proof (cases "matches [(''id'', v)] d")
    case True
    then have "map_of d ''id'' = Some v" by simp
    with Cons.prems have "\<forall>d'\<in>set c. map_of d' ''id'' \<noteq> Some v"
      by (force simp: doc_ids_def)
    then have "filter (\<lambda>d. \<not> matches [(''id'', v)] d) c = c"
      by (simp add: filter_id_conv)
    with True show ?thesis by simp
  next
    case False
    with Cons show ?thesis by (simp add: doc_ids_def)
  qed
qed

lemma find_one_delete_many: "find_one q (delete_many q c) = None"
  by (simp add: find_one_None delete_many_def)

lemma find_all_delete_many: "find_all q (delete_many q c) = []"
  by (simp add: find_all_def delete_many_def)

section \<open>What the handlers compute\<close>

subsection \<open>Partial updates\<close>

lemma keys_filter_distinct:
  "distinct (map fst xs) \<Longrightarrow> distinct (map fst (filter P xs))"
  by (simp add: distinct_map_filter)

lemma map_of_update_data:
  fixes now :: datetime
  assumes "distinct (map fst xs)"
  defines "upd \<equiv> prepare_for_mongo
                   (AList.update ''updated_at'' (VDatetime now)
                      (filter (\<lambda>(k, v). v \<noteq> VNone) xs))"
  shows "map_of (set_fields upd d) k =
           (if k = ''updated_at'' then Some (VStr (isoformat now))
            else (case map_of xs k of
                    None \<Rightarrow> map_of d k
                  | Some VNone \<Rightarrow> map_of d k
                  | Some (VStr x) \<Rightarrow> Some (VStr x)
                  | Some (VDatetime t) \<Rightarrow> Some (VStr (isoformat t))))"
proof -
  have "distinct (map fst upd)"
    unfolding upd_def keys_prepare_for_mongo
    by (intro distinct_update keys_filter_distinct assms)
  then have "map_of (rev upd) = map_of upd" by (rule map_of_rev_distinct)
  then show ?thesis
    by (simp add: map_of_set_fields upd_def map_of_prepare_for_mongo update_conv'
        map_of_filter_not_None [OF assms(1)] split: option.splits val.splits)
qed

subsection \<open>Model construction\<close>

lemma Board_init_Inr:
  "Board_init e kw = Inr b \<longleftrightarrow>
     field_str (Some (uuid4 e)) (map_of kw ''id'') = Some (b_id b) \<and>
     field_str None (map_of kw ''name'') = Some (b_name b) \<and>
     field_opt_str (Some '''') (map_of kw ''description'') = Some (b_description b) \<and>
     field_datetime (parse_datetime e) (now_created e) (map_of kw ''created_at'')
       = Some (b_created_at b) \<and>
     field_datetime (parse_datetime e) (now_updated e) (map_of kw ''updated_at'')
       = Some (b_updated_at b)"
  by (cases b) (auto simp: Board_init_def Let_def)

lemma Board_init_error: "Board_init e kw = Inl err \<Longrightarrow> err = ValidationError"
  by (auto simp: Board_init_def Let_def split: if_splits)

lemma Task_init_Inr:
  "Task_init e kw = Inr t \<longleftrightarrow>
     field_str (Some (uuid4 e)) (map_of kw ''id'') = Some (t_id t) \<and>
     field_str None (map_of kw ''board_id'') = Some (t_board_id t) \<and>
     field_str None (map_of kw ''title'') = Some (t_title t) \<and>
     field_opt_str (Some '''') (map_of kw ''description'') = Some (t_description t) \<and>
     field_priority (map_of kw ''priority'') = Some (t_priority t) \<and>
     field_column (map_of kw ''column'') = Some (t_column t) \<and>
     field_opt_datetime (parse_datetime e) (map_of kw ''due_date'') = Some (t_due_date t) \<and>
     field_datetime (parse_datetime e) (now_created e) (map_of kw ''created_at'')
       = Some (t_created_at t) \<and>
     field_datetime (parse_datetime e) (now_updated e) (map_of kw ''updated_at'')
       = Some (t_updated_at t)"
  by (cases t) (auto simp: Task_init_def Let_def)

lemma Task_init_error: "Task_init e kw = Inl err \<Longrightarrow> err = ValidationError"
  by (auto simp: Task_init_def Let_def split: if_splits)

subsection \<open>Reading handlers\<close>

lemma get_board_Inr:
  "get_board e bid s = (Inr b, s') \<longleftrightarrow>
     (\<exists>d. find_one [(''id'', VStr bid)] (boards s) = Some d \<and>
          Board_init e (parse_from_mongo d) = Inr b) \<and> s' = s"
  by (auto simp: get_board_def split: option.splits)

lemma get_board_NotFound:
  "get_board e bid s = (Inl NotFound, s') \<longleftrightarrow>
     find_one [(''id'', VStr bid)] (boards s) = None \<and> s' = s"
  by (auto simp: get_board_def split: option.splits dest: Board_init_error)

lemma get_task_Inr:
  "get_task e tid s = (Inr t, s') \<longleftrightarrow>
     (\<exists>d. find_one [(''id'', VStr tid)] (tasks s) = Some d \<and>
          Task_init e (parse_from_mongo d) = Inr t) \<and> s' = s"
  by (auto simp: get_task_def split: option.splits)

lemma get_task_NotFound:
  "get_task e tid s = (Inl NotFound, s') \<longleftrightarrow>
     find_one [(''id'', VStr tid)] (tasks s) = None \<and> s' = s"
  by (auto simp: get_task_def split: option.splits dest: Task_init_error)

subsection \<open>Updating a board\<close>

lemma update_board_result:
  fixes now :: datetime and u :: BoardUpdate and b :: Board and d :: doc
  assumes found: "find_one [(''id'', VStr bid)] (boards s) = Some d"
    and rd: "Board_init e (parse_from_mongo d) = Inr b"
    and now: "valid_datetime now"
  defines "upd \<equiv> prepare_for_mongo
                   (AList.update ''updated_at'' (VDatetime now)
                      (filter (\<lambda>(k, v). v \<noteq> VNone) (BoardUpdate_dict u)))"
    and "b' \<equiv> b\<lparr>b_name := (case bu_name u of None \<Rightarrow> b_name b | Some n \<Rightarrow> n),
                  b_description := (case bu_description u of
                                      None \<Rightarrow> b_description b | Some x \<Rightarrow> Some x),
                  b_updated_at := now\<rparr>"
  shows "update_board e now bid u s =
           (Inr b', s\<lparr>boards := update_one [(''id'', VStr bid)] upd (boards s)\<rparr>)"
    and "find_one [(''id'', VStr bid)] (update_one [(''id'', VStr bid)] upd (boards s))
           = Some (set_fields upd d)"
    and "Board_init e (parse_from_mongo (set_fields upd d)) = Inr b'"
proof -
  have dk: "distinct (map fst (BoardUpdate_dict u))"
    by (simp add: BoardUpdate_dict_def)
  note lk = map_of_update_data [OF dk, of now d, folded upd_def]
  have "map_of d ''id'' = Some (VStr bid)"
    using find_one_Some [OF found] by simp
  then have m: "matches [(''id'', VStr bid)] (set_fields upd d)"
    by (simp add: lk BoardUpdate_dict_def)
  show f: "find_one [(''id'', VStr bid)] (update_one [(''id'', VStr bid)] upd (boards s))
           = Some (set_fields upd d)"
    by (rule find_one_update_one [OF found m])
  note r = rd [unfolded Board_init_Inr]
  show rd': "Board_init e (parse_from_mongo (set_fields upd d)) = Inr b'"
    unfolding Board_init_Inr
  proof (intro conjI)
    show "field_str (Some (uuid4 e)) (map_of (parse_from_mongo (set_fields upd d)) ''id'')
          = Some (b_id b')"
      using r by (simp add: map_of_parse_from_mongo_other lk BoardUpdate_dict_def b'_def)
    show "field_str None (map_of (parse_from_mongo (set_fields upd d)) ''name'')
          = Some (b_name b')"
      using r by (simp add: map_of_parse_from_mongo_other lk BoardUpdate_dict_def b'_def
          opt_str_def field_str_def split: option.splits)
    show "field_opt_str (Some '''') (map_of (parse_from_mongo (set_fields upd d)) ''description'')
          = Some (b_description b')"
      using r by (simp add: map_of_parse_from_mongo_other lk BoardUpdate_dict_def b'_def
          opt_str_def field_opt_str_def split: option.splits)
    show "field_datetime (parse_datetime e) (now_created e)
            (map_of (parse_from_mongo (set_fields upd d)) ''created_at'')
          = Some (b_created_at b')"
      using r by (simp add: map_of_parse_from_mongo_ts lk BoardUpdate_dict_def b'_def)
    show "field_datetime (parse_datetime e) (now_updated e)
            (map_of (parse_from_mongo (set_fields upd d)) ''updated_at'')
          = Some (b_updated_at b')"
      by (simp add: map_of_parse_from_mongo_ts lk b'_def field_datetime_def
          fromisoformat_isoformat [OF now])
  qed
  show "update_board e now bid u s =
           (Inr b', s\<lparr>boards := update_one [(''id'', VStr bid)] upd (boards s)\<rparr>)"
    using found f rd' by (simp add: update_board_def Let_def upd_def)
qed

subsection \<open>Updating and moving a task\<close>

lemma TaskPriority_of_value [simp]: "TaskPriority_of (TaskPriority_value p) = Some p"
  by (cases p) (simp_all add: TaskPriority_of_def)

lemma TaskColumn_of_value [simp]: "TaskColumn_of (TaskColumn_value c) = Some c"
  by (cases c) (simp_all add: TaskColumn_of_def)

lemma TaskPriority_of_Some: "TaskPriority_of s = Some p \<longleftrightarrow> s = TaskPriority_value p"
  by (cases p) (auto simp: TaskPriority_of_def split: if_splits)

lemma TaskColumn_of_Some: "TaskColumn_of s = Some c \<longleftrightarrow> s = TaskColumn_value c"
  by (cases c) (auto simp: TaskColumn_of_def split: if_splits)

lemma update_task_result:
  fixes now :: datetime and u :: TaskUpdate and t :: Task and d :: doc
  assumes found: "find_one [(''id'', VStr tid)] (tasks s) = Some d"
    and rd: "Task_init e (parse_from_mongo d) = Inr t"
    and now: "valid_datetime now"
    and due: "case tu_due_date u of None \<Rightarrow> True | Some x \<Rightarrow> valid_datetime x"
  defines "upd \<equiv> prepare_for_mongo
                   (AList.update ''updated_at'' (VDatetime now)
                      (filter (\<lambda>(k, v). v \<noteq> VNone) (TaskUpdate_dict u)))"
    and "t' \<equiv> t\<lparr>t_title := (case tu_title u of None \<Rightarrow> t_title t | Some x \<Rightarrow> x),
                  t_description := (case tu_description u of
                                      None \<Rightarrow> t_description t | Some x \<Rightarrow> Some x),
                  t_priority := (case tu_priority u of None \<Rightarrow> t_priority t | Some x \<Rightarrow> x),
                  t_column := (case tu_column u of None \<Rightarrow> t_column t | Some x \<Rightarrow> x),
                  t_due_date := (case tu_due_date u of
                                   None \<Rightarrow> t_due_date t | Some x \<Rightarrow> Some x),
                  t_updated_at := now\<rparr>"
  shows "update_task e now tid u s =
           (Inr t', s\<lparr>tasks := update_one [(''id'', VStr tid)] upd (tasks s)\<rparr>)"
    and "find_one [(''id'', VStr tid)] (update_one [(''id'', VStr tid)] upd (tasks s))
           = Some (set_fields upd d)"
    and "Task_init e (parse_from_mongo (set_fields upd d)) = Inr t'"
proof -
  have dk: "distinct (map fst (TaskUpdate_dict u))"
    by (simp add: TaskUpdate_dict_def)
  note lk = map_of_update_data [OF dk, of now d, folded upd_def]
  have "map_of d ''id'' = Some (VStr tid)"
    using find_one_Some [OF found] by simp
  then have m: "matches [(''id'', VStr tid)] (set_fields upd d)"
    by (simp add: lk TaskUpdate_dict_def)
  show f: "find_one [(''id'', VStr tid)] (update_one [(''id'', VStr tid)] upd (tasks s))
           = Some (set_fields upd d)"
    by (rule find_one_update_one [OF found m])
  note r = rd [unfolded Task_init_Inr]
  let ?kw = "parse_from_mongo (set_fields upd d)"
  show rd': "Task_init e ?kw = Inr t'"
    unfolding Task_init_Inr
  proof (intro conjI)
    show "field_str (Some (uuid4 e)) (map_of ?kw ''id'') = Some (t_id t')"
      using r by (simp add: map_of_parse_from_mongo_other lk TaskUpdate_dict_def t'_def)
    show "field_str None (map_of ?kw ''board_id'') = Some (t_board_id t')"
      using r by (simp add: map_of_parse_from_mongo_other lk TaskUpdate_dict_def t'_def)
    show "field_str None (map_of ?kw ''title'') = Some (t_title t')"
      using r by (simp add: map_of_parse_from_mongo_other lk TaskUpdate_dict_def t'_def
          opt_str_def field_str_def split: option.splits)
    show "field_opt_str (Some '''') (map_of ?kw ''description'') = Some (t_description t')"
      using r by (simp add: map_of_parse_from_mongo_other lk TaskUpdate_dict_def t'_def
          opt_str_def field_opt_str_def split: option.splits)
    show "field_priority (map_of ?kw ''priority'') = Some (t_priority t')"
      using r by (simp add: map_of_parse_from_mongo_other lk TaskUpdate_dict_def t'_def
          opt_str_def field_priority_def split: option.splits)
    show "field_column (map_of ?kw ''column'') = Some (t_column t')"
      using r by (simp add: map_of_parse_from_mongo_other lk TaskUpdate_dict_def t'_def
          opt_str_def field_column_def split: option.splits)
    show "field_opt_datetime (parse_datetime e) (map_of ?kw ''due_date'')
          = Some (t_due_date t')"
    proof (cases "tu_due_date u")
      case None
      then show ?thesis
        using r by (simp add: map_of_parse_from_mongo_ts lk TaskUpdate_dict_def t'_def
            opt_datetime_def)
    next
      case (Some x)
      with due have "fromisoformat (isoformat x) = Some x"
        by (simp add: fromisoformat_isoformat)
      with Some show ?thesis
        by (simp add: map_of_parse_from_mongo_ts lk TaskUpdate_dict_def t'_def
            opt_datetime_def field_opt_datetime_def)
    qed
    show "field_datetime (parse_datetime e) (now_created e) (map_of ?kw ''created_at'')
          = Some (t_created_at t')"
      using r by (simp add: map_of_parse_from_mongo_ts lk TaskUpdate_dict_def t'_def)
    show "field_datetime (parse_datetime e) (now_updated e) (map_of ?kw ''updated_at'')
          = Some (t_updated_at t')"
      by (simp add: map_of_parse_from_mongo_ts lk t'_def field_datetime_def
          fromisoformat_isoformat [OF now])
  qed
  show "update_task e now tid u s =
           (Inr t', s\<lparr>tasks := update_one [(''id'', VStr tid)] upd (tasks s)\<rparr>)"
    using found f rd' by (simp add: update_task_def Let_def upd_def)
qed

lemma move_task_result:
  fixes now :: datetime and c :: TaskColumn and t :: Task and d :: doc
  assumes found: "find_one [(''id'', VStr tid)] (tasks s) = Some d"
    and rd: "Task_init e (parse_from_mongo d) = Inr t"
    and now: "valid_datetime now"
  defines "upd \<equiv> prepare_for_mongo
                   [(''column'', VStr (TaskColumn_value c)), (''updated_at'', VDatetime now)]"
    and "t' \<equiv> t\<lparr>t_column := c, t_updated_at := now\<rparr>"
  shows "move_task e now tid c s =
           (Inr t', s\<lparr>tasks := update_one [(''id'', VStr tid)] upd (tasks s)\<rparr>)"
    and "find_one [(''id'', VStr tid)] (update_one [(''id'', VStr tid)] upd (tasks s))
           = Some (set_fields upd d)"
    and "Task_init e (parse_from_mongo (set_fields upd d)) = Inr t'"
proof -
  have u: "upd = [(''column'', VStr (TaskColumn_value c)),
                  (''updated_at'', VStr (isoformat now))]"
    by (simp add: upd_def prepare_for_mongo_def)
  have lk: "map_of (set_fields upd d) k =
              (if k = ''updated_at'' then Some (VStr (isoformat now))
               else if k = ''column'' then Some (VStr (TaskColumn_value c))
               else map_of d k)" for k
    by (simp add: map_of_set_fields u)
  have "map_of d ''id'' = Some (VStr tid)"
    using find_one_Some [OF found] by simp
  then have m: "matches [(''id'', VStr tid)] (set_fields upd d)"
    by (simp add: lk)
  show f: "find_one [(''id'', VStr tid)] (update_one [(''id'', VStr tid)] upd (tasks s))
           = Some (set_fields upd d)"
    by (rule find_one_update_one [OF found m])
  note r = rd [unfolded Task_init_Inr]
  let ?kw = "parse_from_mongo (set_fields upd d)"
  show rd': "Task_init e ?kw = Inr t'"
    unfolding Task_init_Inr
  proof (intro conjI)
    show "field_str (Some (uuid4 e)) (map_of ?kw ''id'') = Some (t_id t')"
      using r by (simp add: map_of_parse_from_mongo_other lk t'_def)
    show "field_str None (map_of ?kw ''board_id'') = Some (t_board_id t')"
      using r by (simp add: map_of_parse_from_mongo_other lk t'_def)
    show "field_str None (map_of ?kw ''title'') = Some (t_title t')"
      using r by (simp add: map_of_parse_from_mongo_other lk t'_def)
    show "field_opt_str (Some '''') (map_of ?kw ''description'') = Some (t_description t')"
      using r by (simp add: map_of_parse_from_mongo_other lk t'_def)
    show "field_priority (map_of ?kw ''priority'') = Some (t_priority t')"
      using r by (simp add: map_of_parse_from_mongo_other lk t'_def)
    show "field_column (map_of ?kw ''column'') = Some (t_column t')"
      by (simp add: map_of_parse_from_mongo_other lk t'_def field_column_def)
    show "field_opt_datetime (parse_datetime e) (map_of ?kw ''due_date'')
          = Some (t_due_date t')"
      using r by (simp add: map_of_parse_from_mongo_ts lk t'_def)
    show "field_datetime (parse_datetime e) (now_created e) (map_of ?kw ''created_at'')
          = Some (t_created_at t')"
      using r by (simp add: map_of_parse_from_mongo_ts lk t'_def)
    show "field_datetime (parse_datetime e) (now_updated e) (map_of ?kw ''updated_at'')
          = Some (t_updated_at t')"
      by (simp add: map_of_parse_from_mongo_ts lk t'_def field_datetime_def
          fromisoformat_isoformat [OF now])
  qed
  show "move_task e now tid c s =
           (Inr t', s\<lparr>tasks := update_one [(''id'', VStr tid)] upd (tasks s)\<rparr>)"
    using found f rd' by (simp add: move_task_def Let_def upd_def)
qed

section \<open>The sample store, evaluated\<close>

lemma ex_iso_t0: "fromisoformat ''2024-01-15T10:30:00+00:00'' = Some ex_t0"
  by code_simp

lemma ex_iso_due: "fromisoformat ''2024-02-01T12:00:00+05:30'' = Some ex_due"
  by code_simp

lemma ex_valid: "valid_datetime ex_t0" "valid_datetime ex_t1" "valid_datetime ex_early"
  "valid_datetime ex_due"
  by code_simp+

lemma ex_read_board1: "Board_init ex_env (parse_from_mongo ex_board1) = Inr ex_Board1"
  by code_simp

lemma ex_read_task1: "Task_init ex_env (parse_from_mongo ex_task1) = Inr ex_Task1"
  by code_simp

lemma ex_get_task1: "get_task ex_env ''t1'' ex_store = (Inr ex_Task1, ex_store)"
  by code_simp

lemma ex_get_board_nope: "get_board ex_env ''nope'' ex_store = (Inl NotFound, ex_store)"
  by code_simp

section \<open>Claims\<close>

text \<open>
  Claim C3. Creating a task under a board id that no board carries (reading that board
  fails with 404) fails with \<open>NotFound\<close> and returns the store as it was: no task
  document is inserted.
\<close>

theorem create_task_unknown_board:
  assumes "get_board e board_id s = (Inl NotFound, s)"
  shows "create_task e' board_id task_data s = (Inl NotFound, s)"
proof -
  from assms have "find_one [(''id'', VStr board_id)] (boards s) = None"
    by (simp add: get_board_NotFound)
  then show ?thesis by (simp add: create_task_def)
qed

theorem create_task_unknown_board_witness:
  "get_board ex_env ''nope'' ex_store = (Inl NotFound, ex_store) \<and>
   create_task ex_env ''nope'' ex_TaskCreate ex_store = (Inl NotFound, ex_store)"
  using create_task_unknown_board [OF ex_get_board_nope, of ex_env ex_TaskCreate]
    ex_get_board_nope
  by simp

end
